theory Spec2Isabelle
  imports Complex_Main
begin

section \<open>Data model of app.py\<close>

text \<open>
  The handlers of app.py are embedded as functions on the dictionary that
  \<open>load_data\<close> returns. What a handler passes to \<open>save_data\<close> is the state it
  returns; a handler that returns before \<open>save_data\<close> returns the state it was given.

  \<^item> \<open>datetime.now()\<close> is the argument \<open>now\<close> of a handler, a count of seconds on the
    local clock; the code only compares instants, adds 30 minutes and takes the
    calendar date, so \<open>timedelta(minutes=30)\<close> is 1800 and \<open>.date()\<close> is \<open>div 86400\<close>.
  \<^item> Amounts are Python floats; they are embedded as exact rationals (finite values,
    no rounding).
  \<^item> \<open>generate_transaction_id()\<close> draws at random: its result is the argument \<open>tid\<close>.
    \<open>generate_password_hash\<close> salts at random: its result is the argument \<open>digest\<close>.
    \<open>check_password_hash\<close> is the argument \<open>chk\<close>.
  \<^item> An exception no handler catches (KeyError, TypeError) is an error value; nothing
    is saved in that case.
\<close>

type_synonym time = int

definition date :: "time \<Rightarrow> int" where
  "date t = t div 86400"

datatype json = JNum rat | JStr string | JBool bool | JNull | JOther

text \<open>Python compares and adds a bool as the integer 0 or 1; a string, None, a list or
  a dict against a float raises TypeError.\<close>

fun as_number :: "json \<Rightarrow> rat option" where
  "as_number (JNum r) = Some r"
| "as_number (JBool b) = Some (if b then 1 else 0)"
| "as_number (JStr v) = None"
| "as_number JNull = None"
| "as_number JOther = None"

record account =
  pin_hash :: string
  balance :: rat
  name :: string
  account_type :: string
  daily_limit :: rat
  daily_withdrawn :: rat
  last_reset :: time
  created_at :: time
  preferences :: "string \<rightharpoonup> json"

record session =
  account_number :: string
  session_created_at :: time
  expires_at :: time

record transaction =
  tx_id :: string
  tx_type :: string
  amount :: rat
  timestamp :: time
  balance_after :: rat
  tx_account_number :: "string option"
  from_account :: "string option"
  to_account :: "string option"
  tx_note :: "string option"

record db =
  accounts :: "string \<rightharpoonup> account"
  transactions :: "transaction list"
  failed_attempts :: "string \<rightharpoonup> int"
  locked_accounts :: "string \<rightharpoonup> time"
  session_tokens :: "string \<rightharpoonup> session"

text \<open>The failure responses of the handlers, by kind: 400 is \<open>ValidationError\<close> (or
  \<open>LimitExceeded\<close>, \<open>InsufficientFunds\<close> by message), 404 is \<open>NotFound\<close>, 403 is
  \<open>Locked\<close> with the minutes of the message, 401 is \<open>InvalidPin\<close> with the attempts of
  the message, \<open>CurrentPinIncorrect\<close> or \<open>SessionExpired\<close>.\<close>

datatype error =
    ValidationError
  | NotFound
  | Locked int
  | InvalidPin int
  | CurrentPinIncorrect
  | SessionExpired
  | LimitExceeded
  | InsufficientFunds
  | KeyError
  | TypeError

text \<open>What the file \<open>atm_data.json\<close> holds: the five dictionaries, or the body of a
  request (of which only the key \<open>token\<close> is embedded).\<close>

datatype store = Ledger db | Request_body string

definition init_db :: db where
  "init_db = \<lparr>accounts = Map.empty, transactions = [], failed_attempts = Map.empty,
     locked_accounts = Map.empty, session_tokens = Map.empty\<rparr>"

section \<open>Helpers\<close>

definition check_account_lock :: "db \<Rightarrow> string \<Rightarrow> time \<Rightarrow> (bool \<times> int) \<times> db" where
  "check_account_lock s acc now =
     (case locked_accounts s acc of
        None \<Rightarrow> ((False, 0), s)
      | Some lock_time \<Rightarrow>
          if now < lock_time + 1800
          then ((True, ((lock_time + 1800 - now) mod 86400) div 60), s)
          else ((False, 0),
                s\<lparr>locked_accounts := (locked_accounts s)(acc := None),
                  failed_attempts := (failed_attempts s)(acc := None)\<rparr>))"

definition reset_account :: "time \<Rightarrow> account \<Rightarrow> account" where
  "reset_account now a =
     (if date now > date (last_reset a)
      then a\<lparr>daily_withdrawn := 0, last_reset := now\<rparr> else a)"

definition reset_daily_limits :: "db \<Rightarrow> time \<Rightarrow> db" where
  "reset_daily_limits s now =
     s\<lparr>accounts := (\<lambda>k. map_option (reset_account now) (accounts s k))\<rparr>"

text \<open>The loop of \<open>generate_account_number\<close> draws until a number is free; the draws
  are the list \<open>cands\<close>, and a list without a free number is a loop that has not
  returned.\<close>

fun generate_account_number :: "db \<Rightarrow> string list \<Rightarrow> string option" where
  "generate_account_number s [] = None"
| "generate_account_number s (c # cs) =
     (if accounts s c = None then Some c else generate_account_number s cs)"

text \<open>\<open>str.strip()\<close> and \<open>str.isdigit()\<close> on ASCII text: the whitespace characters are
  space, tab, line feed, vertical tab, form feed, carriage return and the four
  separators 0x1C to 0x1F; the digits are 0 to 9.\<close>

definition is_space :: "char \<Rightarrow> bool" where
  "is_space c = (c \<in> set [CHR '' '', CHR 0x09, CHR 0x0A, CHR 0x0B, CHR 0x0C, CHR 0x0D,
     CHR 0x1C, CHR 0x1D, CHR 0x1E, CHR 0x1F])"

definition strip :: "string \<Rightarrow> string" where
  "strip v = rev (dropWhile is_space (rev (dropWhile is_space v)))"

definition isdigit :: "string \<Rightarrow> bool" where
  "isdigit v = (v \<noteq> [] \<and> list_all (\<lambda>c. c \<in> set ''0123456789'') v)"

definition bad_pin :: "string \<Rightarrow> bool" where
  "bad_pin p = (p = [] \<or> length p \<noteq> 4 \<or> \<not> isdigit p)"

text \<open>\<open>xs[:n]\<close>: a negative \<open>n\<close> counts from the end.\<close>

definition py_take :: "int \<Rightarrow> 'a list \<Rightarrow> 'a list" where
  "py_take n xs = (if 0 \<le> n then take (nat n) xs else take (length xs - nat (- n)) xs)"

text \<open>The assignment \<open>db_data['session_tokens'][token]['expires_at'] = now + 30 minutes\<close>.\<close>

definition renew :: "db \<Rightarrow> string \<Rightarrow> session \<Rightarrow> time \<Rightarrow> string \<rightharpoonup> session" where
  "renew s token session_data now =
     (session_tokens s)(token \<mapsto> session_data\<lparr>expires_at := now + 1800\<rparr>)"

section \<open>Handlers\<close>

definition register ::
  "db \<Rightarrow> string \<Rightarrow> string \<Rightarrow> rat \<Rightarrow> string list \<Rightarrow> string \<Rightarrow> string \<Rightarrow> time
     \<Rightarrow> ((error + string \<times> string \<times> rat) \<times> db) option" where
  "register s raw_name pin initial_deposit cands digest tid now =
     (let name' = strip raw_name in
      if name' = [] \<or> length name' < 2 then Some (Inl ValidationError, s)
      else if bad_pin pin then Some (Inl ValidationError, s)
      else if initial_deposit < 0 then Some (Inl ValidationError, s)
      else case generate_account_number s cands of
        None \<Rightarrow> None
      | Some acc \<Rightarrow>
          let a = \<lparr>pin_hash = digest, balance = initial_deposit, name = name',
                   account_type = ''Savings'', daily_limit = 5000, daily_withdrawn = 0,
                   last_reset = now, created_at = now,
                   preferences = [''fast_cash_amount'' \<mapsto> JNum 100,
                                  ''receipt_enabled'' \<mapsto> JBool True,
                                  ''language'' \<mapsto> JStr ''en'']\<rparr>;
              txs = (if initial_deposit > 0
                     then transactions s @
                       [\<lparr>tx_id = tid, tx_type = ''deposit'', amount = initial_deposit,
                         timestamp = now, balance_after = initial_deposit,
                         tx_account_number = Some acc, from_account = None,
                         to_account = None, tx_note = Some ''Initial deposit''\<rparr>]
                     else transactions s)
          in Some (Inr (acc, name', initial_deposit),
                   s\<lparr>accounts := (accounts s)(acc \<mapsto> a), transactions := txs\<rparr>))"

definition login ::
  "(string \<Rightarrow> string \<Rightarrow> bool) \<Rightarrow> db \<Rightarrow> string \<Rightarrow> string \<Rightarrow> string \<Rightarrow> time
     \<Rightarrow> (error + string \<times> string \<times> string \<times> string \<times> rat) \<times> db" where
  "login chk s acc pin tid now =
     (if acc = [] \<or> pin = [] then (Inl ValidationError, s)
      else case check_account_lock s acc now of
        ((True, minutes_remaining), s1) \<Rightarrow> (Inl (Locked minutes_remaining), s1)
      | ((False, minutes_remaining), s1) \<Rightarrow>
          (case accounts s1 acc of
             None \<Rightarrow> (Inl NotFound, s1)
           | Some a \<Rightarrow>
               if chk (pin_hash a) pin
               then (Inr (tid, acc, name a, account_type a, balance a),
                     reset_daily_limits
                       (s1\<lparr>failed_attempts := (failed_attempts s1)(acc := None),
                           session_tokens := (session_tokens s1)(tid \<mapsto>
                             \<lparr>account_number = acc, session_created_at = now,
                              expires_at = now + 1800\<rparr>)\<rparr>) now)
               else
                 let n = (case failed_attempts s1 acc of None \<Rightarrow> 0 | Some c \<Rightarrow> c) + 1;
                     s2 = s1\<lparr>failed_attempts := (failed_attempts s1)(acc \<mapsto> n)\<rparr>
                 in if n \<ge> 3
                    then (Inl (Locked 30),
                          s2\<lparr>locked_accounts := (locked_accounts s2)(acc \<mapsto> now)\<rparr>)
                    else (Inl (InvalidPin (3 - n)), s2)))"

text \<open>\<open>logout\<close> loads the file into \<open>db_data\<close>, deletes the token there, and passes
  \<open>data\<close>, the body of the request, to \<open>save_data\<close>. A file that holds a request body
  has no key \<open>session_tokens\<close>.\<close>

fun logout :: "store \<Rightarrow> string \<Rightarrow> (error + unit) \<times> store" where
  "logout (Ledger s) token =
     (if session_tokens s token \<noteq> None then (Inr (), Request_body token)
      else (Inr (), Ledger s))"
| "logout (Request_body b) token = (Inl KeyError, Request_body b)"

definition get_balance ::
  "db \<Rightarrow> string \<Rightarrow> time \<Rightarrow> (error + rat \<times> rat \<times> rat \<times> string) \<times> db" where
  "get_balance s token now =
     (case session_tokens s token of
        None \<Rightarrow> (Inl SessionExpired, s)
      | Some session_data \<Rightarrow>
          (if now > expires_at session_data then (Inl SessionExpired, s)
           else (case accounts s (account_number session_data) of
             None \<Rightarrow> (Inl KeyError, s)
           | Some a \<Rightarrow>
               (Inr (balance a, daily_limit a, daily_limit a - daily_withdrawn a,
                     account_type a),
                s\<lparr>session_tokens := renew s token session_data now\<rparr>))))"

definition withdraw ::
  "db \<Rightarrow> string \<Rightarrow> rat \<Rightarrow> string \<Rightarrow> string \<Rightarrow> time
     \<Rightarrow> (error + rat \<times> string \<times> time) \<times> db" where
  "withdraw s token amt nt tid now =
     (if amt \<le> 0 then (Inl ValidationError, s)
      else if amt > 10000 then (Inl ValidationError, s)
      else case session_tokens s token of
        None \<Rightarrow> (Inl SessionExpired, s)
      | Some session_data \<Rightarrow>
          (case accounts s (account_number session_data) of
             None \<Rightarrow> (Inl KeyError, s)
           | Some a \<Rightarrow>
               if daily_withdrawn a + amt > daily_limit a then (Inl LimitExceeded, s)
               else if amt > balance a then (Inl InsufficientFunds, s)
               else
                 let a' = a\<lparr>balance := balance a - amt,
                            daily_withdrawn := daily_withdrawn a + amt\<rparr>
                 in (Inr (balance a', tid, now),
                     s\<lparr>accounts := (accounts s)(account_number session_data \<mapsto> a'),
                       transactions := transactions s @
                         [\<lparr>tx_id = tid, tx_type = ''withdrawal'', amount = amt,
                           timestamp = now, balance_after = balance a',
                           tx_account_number = Some (account_number session_data),
                           from_account = None, to_account = None, tx_note = Some nt\<rparr>],
                       session_tokens := renew s token session_data now\<rparr>)))"

definition deposit ::
  "db \<Rightarrow> string \<Rightarrow> rat \<Rightarrow> string \<Rightarrow> string \<Rightarrow> time
     \<Rightarrow> (error + rat \<times> string \<times> time) \<times> db" where
  "deposit s token amt nt tid now =
     (if amt \<le> 0 then (Inl ValidationError, s)
      else if amt > 50000 then (Inl ValidationError, s)
      else case session_tokens s token of
        None \<Rightarrow> (Inl SessionExpired, s)
      | Some session_data \<Rightarrow>
          (case accounts s (account_number session_data) of
             None \<Rightarrow> (Inl KeyError, s)
           | Some a \<Rightarrow>
               let a' = a\<lparr>balance := balance a + amt\<rparr>
               in (Inr (balance a', tid, now),
                   s\<lparr>accounts := (accounts s)(account_number session_data \<mapsto> a'),
                     transactions := transactions s @
                       [\<lparr>tx_id = tid, tx_type = ''deposit'', amount = amt,
                         timestamp = now, balance_after = balance a',
                         tx_account_number = Some (account_number session_data),
                         from_account = None, to_account = None, tx_note = Some nt\<rparr>],
                     session_tokens := renew s token session_data now\<rparr>)))"

definition transfer ::
  "db \<Rightarrow> string \<Rightarrow> string \<Rightarrow> rat \<Rightarrow> string \<Rightarrow> string \<Rightarrow> time
     \<Rightarrow> (error + rat \<times> string \<times> time) \<times> db" where
  "transfer s token to_acc amt nt tid now =
     (if amt \<le> 0 then (Inl ValidationError, s)
      else if amt > 10000 then (Inl ValidationError, s)
      else case session_tokens s token of
        None \<Rightarrow> (Inl SessionExpired, s)
      | Some session_data \<Rightarrow>
          let from_acc = account_number session_data in
          (if from_acc = to_acc then (Inl ValidationError, s)
           else (case accounts s to_acc of
            None \<Rightarrow> (Inl NotFound, s)
          | Some recipient \<Rightarrow>
              (case accounts s from_acc of
                 None \<Rightarrow> (Inl KeyError, s)
               | Some sender \<Rightarrow>
                   if amt > balance sender then (Inl InsufficientFunds, s)
                   else
                     let sender' = sender\<lparr>balance := balance sender - amt\<rparr>;
                         recipient' = recipient\<lparr>balance := balance recipient + amt\<rparr>
                     in (Inr (balance sender', tid, now),
                         s\<lparr>accounts := (accounts s)(from_acc \<mapsto> sender',
                                                       to_acc \<mapsto> recipient'),
                           transactions := transactions s @
                             [\<lparr>tx_id = tid, tx_type = ''transfer'', amount = amt,
                               timestamp = now, balance_after = balance sender',
                               tx_account_number = None, from_account = Some from_acc,
                               to_account = Some to_acc, tx_note = Some nt\<rparr>],
                           session_tokens := renew s token session_data now\<rparr>)))))"

text \<open>\<open>sort(key=timestamp, reverse=True)\<close> is stable: equal timestamps keep their
  order in the log.\<close>

definition get_transactions ::
  "db \<Rightarrow> string \<Rightarrow> int \<Rightarrow> time \<Rightarrow> (error + transaction list) \<times> db" where
  "get_transactions s token limit now =
     (case session_tokens s token of
        None \<Rightarrow> (Inl SessionExpired, s)
      | Some session_data \<Rightarrow>
          let acc = account_number session_data;
              account_transactions =
                filter (\<lambda>t. tx_account_number t = Some acc \<or> from_account t = Some acc
                           \<or> to_account t = Some acc) (transactions s);
              sorted_transactions = rev (sort_key timestamp (rev account_transactions))
          in (Inr (py_take limit sorted_transactions),
              s\<lparr>session_tokens := renew s token session_data now\<rparr>))"

definition change_pin ::
  "(string \<Rightarrow> string \<Rightarrow> bool) \<Rightarrow> db \<Rightarrow> string \<Rightarrow> string \<Rightarrow> string \<Rightarrow> string
     \<Rightarrow> (error + unit) \<times> db" where
  "change_pin chk s token current_pin new_pin digest =
     (if bad_pin new_pin then (Inl ValidationError, s)
      else case session_tokens s token of
        None \<Rightarrow> (Inl SessionExpired, s)
      | Some session_data \<Rightarrow>
          (case accounts s (account_number session_data) of
             None \<Rightarrow> (Inl KeyError, s)
           | Some a \<Rightarrow>
               if \<not> chk (pin_hash a) current_pin then (Inl CurrentPinIncorrect, s)
               else (Inr (),
                     s\<lparr>accounts := (accounts s)(account_number session_data \<mapsto>
                          a\<lparr>pin_hash := digest\<rparr>)\<rparr>)))"

definition fast_cash ::
  "db \<Rightarrow> string \<Rightarrow> string \<Rightarrow> time \<Rightarrow> (error + rat \<times> rat \<times> string) \<times> db" where
  "fast_cash s token tid now =
     (case session_tokens s token of
        None \<Rightarrow> (Inl SessionExpired, s)
      | Some session_data \<Rightarrow>
          (case accounts s (account_number session_data) of
             None \<Rightarrow> (Inl KeyError, s)
           | Some a \<Rightarrow>
               (case preferences a ''fast_cash_amount'' of
                  None \<Rightarrow> (Inl KeyError, s)
                | Some v \<Rightarrow>
                    (case as_number v of
                       None \<Rightarrow> (Inl TypeError, s)
                     | Some amt \<Rightarrow>
                         if amt > balance a then (Inl InsufficientFunds, s)
                         else if daily_withdrawn a + amt > daily_limit a
                         then (Inl LimitExceeded, s)
                         else
                           let a' = a\<lparr>balance := balance a - amt,
                                      daily_withdrawn := daily_withdrawn a + amt\<rparr>
                           in (Inr (amt, balance a', tid),
                               s\<lparr>accounts := (accounts s)(account_number session_data \<mapsto> a'),
                                 transactions := transactions s @
                                   [\<lparr>tx_id = tid, tx_type = ''fast_cash'', amount = amt,
                                     timestamp = now, balance_after = balance a',
                                     tx_account_number = Some (account_number session_data),
                                     from_account = None, to_account = None,
                                     tx_note = None\<rparr>],
                                 session_tokens := renew s token session_data now\<rparr>)))))"

definition update_preferences ::
  "db \<Rightarrow> string \<Rightarrow> (string \<rightharpoonup> json) \<Rightarrow> (error + (string \<rightharpoonup> json)) \<times> db" where
  "update_preferences s token prefs =
     (case session_tokens s token of
        None \<Rightarrow> (Inl SessionExpired, s)
      | Some session_data \<Rightarrow>
          (case accounts s (account_number session_data) of
             None \<Rightarrow> (Inl KeyError, s)
           | Some a \<Rightarrow>
               let a' = a\<lparr>preferences := preferences a ++ prefs\<rparr>
               in (Inr (preferences a'),
                   s\<lparr>accounts := (accounts s)(account_number session_data \<mapsto> a')\<rparr>)))"

definition get_account_info ::
  "db \<Rightarrow> string \<Rightarrow> (error + string \<times> string \<times> string \<times> rat \<times> rat \<times> time) \<times> db" where
  "get_account_info s token =
     (case session_tokens s token of
        None \<Rightarrow> (Inl SessionExpired, s)
      | Some session_data \<Rightarrow>
          (case accounts s (account_number session_data) of
             None \<Rightarrow> (Inl KeyError, s)
           | Some a \<Rightarrow>
               (Inr (account_number session_data, name a, account_type a, balance a,
                     daily_limit a, created_at a), s)))"

section \<open>The handlers as steps on the file\<close>

datatype op =
    Register string string rat "string list" string string
  | Login string string string
  | Logout string
  | GetBalance string
  | Withdraw string rat string string
  | Deposit string rat string string
  | Transfer string string rat string string
  | GetTransactions string int
  | ChangePin string string string string
  | FastCash string string
  | UpdatePreferences string "string \<rightharpoonup> json"
  | GetAccountInfo string

text \<open>The file after a request. A \<open>register\<close> whose loop has not returned has saved
  nothing. On a file that holds a request body every handler stops before
  \<open>save_data\<close>, at its validation or at the KeyError of its first lookup.\<close>

fun run_db :: "(string \<Rightarrow> string \<Rightarrow> bool) \<Rightarrow> op \<Rightarrow> time \<Rightarrow> db \<Rightarrow> store" where
  "run_db chk (Register n p d cs dg tid) now s =
     (case register s n p d cs dg tid now of None \<Rightarrow> Ledger s | Some (r, s') \<Rightarrow> Ledger s')"
| "run_db chk (Login a p tid) now s = Ledger (snd (login chk s a p tid now))"
| "run_db chk (Logout tok) now s = snd (logout (Ledger s) tok)"
| "run_db chk (GetBalance tok) now s = Ledger (snd (get_balance s tok now))"
| "run_db chk (Withdraw tok amt nt tid) now s = Ledger (snd (withdraw s tok amt nt tid now))"
| "run_db chk (Deposit tok amt nt tid) now s = Ledger (snd (deposit s tok amt nt tid now))"
| "run_db chk (Transfer tok to_acc amt nt tid) now s =
     Ledger (snd (transfer s tok to_acc amt nt tid now))"
| "run_db chk (GetTransactions tok limit) now s = Ledger (snd (get_transactions s tok limit now))"
| "run_db chk (ChangePin tok cur new dg) now s = Ledger (snd (change_pin chk s tok cur new dg))"
| "run_db chk (FastCash tok tid) now s = Ledger (snd (fast_cash s tok tid now))"
| "run_db chk (UpdatePreferences tok prefs) now s = Ledger (snd (update_preferences s tok prefs))"
| "run_db chk (GetAccountInfo tok) now s = Ledger (snd (get_account_info s tok))"

fun run :: "(string \<Rightarrow> string \<Rightarrow> bool) \<Rightarrow> op \<Rightarrow> time \<Rightarrow> store \<Rightarrow> store" where
  "run chk op now (Ledger s) = run_db chk op now s"
| "run chk op now (Request_body b) = Request_body b"


section \<open>Invariants\<close>

definition account_ok :: "account \<Rightarrow> bool" where
  "account_ok a = (0 \<le> balance a \<and> daily_withdrawn a \<le> daily_limit a)"

fun accounts_of :: "store \<Rightarrow> string \<rightharpoonup> account" where
  "accounts_of (Ledger s) = accounts s"
| "accounts_of (Request_body b) = Map.empty"


text \<open>The stronger invariant of the reachable files: the limit is the constant that
  \<open>register\<close> stores.\<close>

definition accounts_ok :: "db \<Rightarrow> bool" where
  "accounts_ok s = (\<forall>k a. accounts s k = Some a \<longrightarrow> account_ok a \<and> daily_limit a = 5000)"


section \<open>Example data\<close>

definition alice :: account where
  "alice = \<lparr>pin_hash = ''1234'', balance = 10000, name = ''Alice'',
     account_type = ''Savings'', daily_limit = 5000, daily_withdrawn = 4000,
     last_reset = 0, created_at = 0,
     preferences = [''fast_cash_amount'' \<mapsto> JNum 100, ''receipt_enabled'' \<mapsto> JBool True,
                    ''language'' \<mapsto> JStr ''en'']\<rparr>"

definition bob :: account where
  "bob = \<lparr>pin_hash = ''9999'', balance = 70, name = ''Bob'',
     account_type = ''Savings'', daily_limit = 5000, daily_withdrawn = 0,
     last_reset = 0, created_at = 0,
     preferences = [''fast_cash_amount'' \<mapsto> JNum 100, ''receipt_enabled'' \<mapsto> JBool True,
                    ''language'' \<mapsto> JStr ''en'']\<rparr>"

definition carol :: account where
  "carol = \<lparr>pin_hash = ''4321'', balance = 500, name = ''Carol'',
     account_type = ''Savings'', daily_limit = 5000, daily_withdrawn = 4950,
     last_reset = 0, created_at = 0,
     preferences = [''fast_cash_amount'' \<mapsto> JNum 100, ''receipt_enabled'' \<mapsto> JBool True,
                    ''language'' \<mapsto> JStr ''en'']\<rparr>"

text \<open>Three accounts; Alice logged in at instant 0, Bob and Carol at instant 600.\<close>

definition example_db :: db where
  "example_db = \<lparr>accounts = [''111111'' \<mapsto> alice, ''222222'' \<mapsto> bob, ''333333'' \<mapsto> carol],
     transactions = [], failed_attempts = Map.empty, locked_accounts = Map.empty,
     session_tokens = [''TOKENA'' \<mapsto> \<lparr>account_number = ''111111'', session_created_at = 0,
                                          expires_at = 1800\<rparr>,
                       ''TOKENB'' \<mapsto> \<lparr>account_number = ''222222'', session_created_at = 600,
                                          expires_at = 2400\<rparr>,
                       ''TOKENC'' \<mapsto> \<lparr>account_number = ''333333'', session_created_at = 600,
                                          expires_at = 2400\<rparr>]\<rparr>"

text \<open>A file after two requests: Alice registers with 100 at instant 0 and logs in
  one minute later. The stored digest is the PIN and \<open>chk\<close> is equality.\<close>

definition day1 :: store where
  "day1 = run (=) (Login ''111111'' ''1234'' ''TOKENA'') 60
           (run (=) (Register ''Alice'' ''1234'' 100 [''111111''] ''1234'' ''TX01'') 0
              (Ledger init_db))"

text \<open>The same file written out, and the file after Alice has set her fast-cash
  amount to -50.\<close>

definition day1_db :: db where
  "day1_db = \<lparr>accounts = [''111111'' \<mapsto>
       \<lparr>pin_hash = ''1234'', balance = 100, name = ''Alice'', account_type = ''Savings'',
        daily_limit = 5000, daily_withdrawn = 0, last_reset = 0, created_at = 0,
        preferences = [''fast_cash_amount'' \<mapsto> JNum 100, ''receipt_enabled'' \<mapsto> JBool True,
                       ''language'' \<mapsto> JStr ''en'']\<rparr>],
     transactions = [\<lparr>tx_id = ''TX01'', tx_type = ''deposit'', amount = 100, timestamp = 0,
        balance_after = 100, tx_account_number = Some ''111111'', from_account = None,
        to_account = None, tx_note = Some ''Initial deposit''\<rparr>],
     failed_attempts = Map.empty, locked_accounts = Map.empty,
     session_tokens = [''TOKENA'' \<mapsto> \<lparr>account_number = ''111111'', session_created_at = 60,
                                          expires_at = 1860\<rparr>]\<rparr>"


text \<open>The file after three logins to Alice's account with the PIN 0000, at the
  instants 100, 110 and 120.\<close>

definition locked_db :: db where
  "locked_db =
     snd (login (=) (snd (login (=) (snd (login (=) day1_db ''111111'' ''0000'' ''T1'' 100))
        ''111111'' ''0000'' ''T2'' 110)) ''111111'' ''0000'' ''T3'' 120)"




section \<open>What a successful call has done\<close>



lemma deposit_success:
  assumes "deposit s token amt nt tid now = (Inr r, s')"
  shows "\<exists>sess a. session_tokens s token = Some sess \<and>
     accounts s (account_number sess) = Some a \<and>
     0 < amt \<and> amt \<le> 50000 \<and>
     r = (balance a + amt, tid, now) \<and>
     s' = s\<lparr>accounts := (accounts s)(account_number sess \<mapsto> a\<lparr>balance := balance a + amt\<rparr>),
            transactions := transactions s @
              [\<lparr>tx_id = tid, tx_type = ''deposit'', amount = amt, timestamp = now,
                balance_after = balance a + amt,
                tx_account_number = Some (account_number sess),
                from_account = None, to_account = None, tx_note = Some nt\<rparr>],
            session_tokens := renew s token sess now\<rparr>"
  using assms
  by (auto simp: deposit_def Let_def split: if_splits option.splits)


section \<open>Errors leave the state as it was\<close>

lemma withdraw_error: "withdraw s token amt nt tid now = (Inl e, s') \<Longrightarrow> s' = s"
  by (auto simp: withdraw_def Let_def split: if_splits option.splits)

lemma deposit_error: "deposit s token amt nt tid now = (Inl e, s') \<Longrightarrow> s' = s"
  by (auto simp: deposit_def Let_def split: if_splits option.splits)

lemma transfer_error: "transfer s token to_acc amt nt tid now = (Inl e, s') \<Longrightarrow> s' = s"
  by (auto simp: transfer_def Let_def split: if_splits option.splits)

lemma fast_cash_error: "fast_cash s token tid now = (Inl e, s') \<Longrightarrow> s' = s"
  by (auto simp: fast_cash_def Let_def split: if_splits option.splits)

text \<open>
  Claim C6. Whenever withdraw, deposit, transfer or fast-cash answers with an error,
  the state it saves is exactly the state it loaded: every check comes before the
  first assignment, so no balance, daily total, transaction or session has changed.
\<close>

theorem errors_leave_state_unchanged:
  "(fst (withdraw s token amt nt tid now) = Inl e1 \<longrightarrow>
      snd (withdraw s token amt nt tid now) = s) \<and>
   (fst (deposit s token amt nt tid now) = Inl e2 \<longrightarrow>
      snd (deposit s token amt nt tid now) = s) \<and>
   (fst (transfer s token to_acc amt nt tid now) = Inl e3 \<longrightarrow>
      snd (transfer s token to_acc amt nt tid now) = s) \<and>
   (fst (fast_cash s token tid now) = Inl e4 \<longrightarrow> snd (fast_cash s token tid now) = s)"
proof (intro conjI impI)
  assume "fst (withdraw s token amt nt tid now) = Inl e1"
  then show "snd (withdraw s token amt nt tid now) = s"
    using withdraw_error [of s token amt nt tid now e1] by (metis prod.collapse)
next
  assume "fst (deposit s token amt nt tid now) = Inl e2"
  then show "snd (deposit s token amt nt tid now) = s"
    using deposit_error [of s token amt nt tid now e2] by (metis prod.collapse)
next
  assume "fst (transfer s token to_acc amt nt tid now) = Inl e3"
  then show "snd (transfer s token to_acc amt nt tid now) = s"
    using transfer_error [of s token to_acc amt nt tid now e3] by (metis prod.collapse)
next
  assume "fst (fast_cash s token tid now) = Inl e4"
  then show "snd (fast_cash s token tid now) = s"
    using fast_cash_error [of s token tid now e4] by (metis prod.collapse)
qed

theorem errors_leave_state_unchanged_witness:
  "fst (withdraw example_db ''TOKENA'' 2000 ''rent'' ''TX01'' 900) = Inl LimitExceeded \<and>
   snd (withdraw example_db ''TOKENA'' 2000 ''rent'' ''TX01'' 900) = example_db \<and>
   fst (deposit example_db ''TOKENA'' 60000 ''pay'' ''TX01'' 900) = Inl ValidationError \<and>
   snd (deposit example_db ''TOKENA'' 60000 ''pay'' ''TX01'' 900) = example_db \<and>
   fst (transfer example_db ''TOKENA'' ''444444'' 50 ''gift'' ''TX01'' 900) = Inl NotFound \<and>
   snd (transfer example_db ''TOKENA'' ''444444'' 50 ''gift'' ''TX01'' 900) = example_db \<and>
   fst (fast_cash example_db ''TOKENB'' ''TX01'' 900) = Inl InsufficientFunds \<and>
   snd (fast_cash example_db ''TOKENB'' ''TX01'' 900) = example_db"
proof -
  have w: "fst (withdraw example_db ''TOKENA'' 2000 ''rent'' ''TX01'' 900) = Inl LimitExceeded"
    by (simp add: withdraw_def example_db_def alice_def)
  have d: "fst (deposit example_db ''TOKENA'' 60000 ''pay'' ''TX01'' 900) = Inl ValidationError"
    by (simp add: deposit_def)
  have t: "fst (transfer example_db ''TOKENA'' ''444444'' 50 ''gift'' ''TX01'' 900) = Inl NotFound"
    by (simp add: transfer_def example_db_def Let_def)
  have f: "fst (fast_cash example_db ''TOKENB'' ''TX01'' 900) = Inl InsufficientFunds"
    by (simp add: fast_cash_def example_db_def bob_def)
  note th = errors_leave_state_unchanged
    [where s = example_db and token = "''TOKENA''" and amt = 2000 and nt = "''rent''"
       and tid = "''TX01''" and now = 900 and ?e1.0 = LimitExceeded]
  note th2 = errors_leave_state_unchanged
    [where s = example_db and token = "''TOKENA''" and amt = 60000 and nt = "''pay''"
       and tid = "''TX01''" and now = 900 and ?e2.0 = ValidationError]
  note th3 = errors_leave_state_unchanged
    [where s = example_db and token = "''TOKENA''" and amt = 50 and nt = "''gift''"
       and tid = "''TX01''" and now = 900 and to_acc = "''444444''" and ?e3.0 = NotFound]
  note th4 = errors_leave_state_unchanged
    [where s = example_db and token = "''TOKENB''" and tid = "''TX01''" and now = 900
       and ?e4.0 = InsufficientFunds]
  from th w have 1: "snd (withdraw example_db ''TOKENA'' 2000 ''rent'' ''TX01'' 900) = example_db"
    by blast
  from th2 d have 2: "snd (deposit example_db ''TOKENA'' 60000 ''pay'' ''TX01'' 900) = example_db"
    by blast
  from th3 t
  have 3: "snd (transfer example_db ''TOKENA'' ''444444'' 50 ''gift'' ''TX01'' 900) = example_db"
    by blast
  from th4 f have 4: "snd (fast_cash example_db ''TOKENB'' ''TX01'' 900) = example_db"
    by blast
  from w d t f 1 2 3 4 show ?thesis by blast
qed

section \<open>Balances and daily totals stay within bounds\<close>

lemma accounts_okD:
  "accounts_ok s \<Longrightarrow> accounts s k = Some a \<Longrightarrow>
   0 \<le> balance a \<and> daily_withdrawn a \<le> 5000 \<and> daily_limit a = 5000"
  unfolding accounts_ok_def account_ok_def by fastforce

lemma accounts_okI:
  "(\<And>k a. accounts s k = Some a \<Longrightarrow>
     0 \<le> balance a \<and> daily_withdrawn a \<le> 5000 \<and> daily_limit a = 5000) \<Longrightarrow> accounts_ok s"
  unfolding accounts_ok_def account_ok_def by fastforce










lemma reset_daily_limits_ok: "accounts_ok s \<Longrightarrow> accounts_ok (reset_daily_limits s now)"
  by (rule accounts_okI)
     (auto simp: reset_daily_limits_def reset_account_def split: if_splits dest: accounts_okD)









section \<open>Transfers\<close>



section \<open>The daily limit: transfers against withdrawals\<close>










section \<open>Fast cash with a configured amount that is not positive\<close>

lemma day1_eq: "day1 = Ledger day1_db"
  by (simp add: day1_def day1_db_def register_def login_def init_db_def strip_def is_space_def
        bad_pin_def isdigit_def check_account_lock_def reset_daily_limits_def reset_account_def
        Let_def date_def fun_eq_iff)








section \<open>Lockout after failed PINs\<close>

lemma login_wrong_pin:
  assumes "acc \<noteq> []" "pin \<noteq> []" "locked_accounts s acc = None" "accounts s acc = Some a"
    "\<not> chk (pin_hash a) pin"
  shows "login chk s acc pin tid now =
     (if (case failed_attempts s acc of None \<Rightarrow> 0 | Some c \<Rightarrow> c) + 1 \<ge> 3
      then (Inl (Locked 30),
            s\<lparr>failed_attempts := (failed_attempts s)(acc \<mapsto>
                  (case failed_attempts s acc of None \<Rightarrow> 0 | Some c \<Rightarrow> c) + 1),
              locked_accounts := (locked_accounts s)(acc \<mapsto> now)\<rparr>)
      else (Inl (InvalidPin (3 - ((case failed_attempts s acc of None \<Rightarrow> 0 | Some c \<Rightarrow> c) + 1))),
            s\<lparr>failed_attempts := (failed_attempts s)(acc \<mapsto>
                  (case failed_attempts s acc of None \<Rightarrow> 0 | Some c \<Rightarrow> c) + 1)\<rparr>))"
  using assms by (simp add: login_def check_account_lock_def Let_def)

lemma three_failures_lock:
  assumes "acc \<noteq> []" "p1 \<noteq> []" "p2 \<noteq> []" "p3 \<noteq> []"
    and "accounts s acc = Some a" "locked_accounts s acc = None" "failed_attempts s acc = None"
    and "\<not> chk (pin_hash a) p1" "\<not> chk (pin_hash a) p2" "\<not> chk (pin_hash a) p3"
  shows "let s1 = snd (login chk s acc p1 tid1 now1);
             s2 = snd (login chk s1 acc p2 tid2 now2);
             s3 = snd (login chk s2 acc p3 tid3 now3)
         in fst (login chk s acc p1 tid1 now1) = Inl (InvalidPin 2) \<and>
            locked_accounts s1 acc = None \<and>
            fst (login chk s1 acc p2 tid2 now2) = Inl (InvalidPin 1) \<and>
            locked_accounts s2 acc = None \<and>
            fst (login chk s2 acc p3 tid3 now3) = Inl (Locked 30) \<and>
            locked_accounts s3 acc = Some now3 \<and> failed_attempts s3 acc = Some 3"
proof -
  let ?s1 = "s\<lparr>failed_attempts := (failed_attempts s)(acc \<mapsto> 1)\<rparr>"
  let ?s2 = "s\<lparr>failed_attempts := (failed_attempts s)(acc \<mapsto> 2)\<rparr>"
  let ?s3 = "s\<lparr>failed_attempts := (failed_attempts s)(acc \<mapsto> 3),
               locked_accounts := (locked_accounts s)(acc \<mapsto> now3)\<rparr>"
  have 1: "login chk s acc p1 tid1 now1 = (Inl (InvalidPin 2), ?s1)"
    using assms by (simp add: login_wrong_pin [where a = a])
  have 2: "login chk ?s1 acc p2 tid2 now2 = (Inl (InvalidPin 1), ?s2)"
    using assms by (simp add: login_wrong_pin [where a = a])
  have 3: "login chk ?s2 acc p3 tid3 now3 = (Inl (Locked 30), ?s3)"
    using assms by (simp add: login_wrong_pin [where a = a])
  show ?thesis
    using assms(6) by (simp add: Let_def 1 2 3)
qed

lemma login_while_locked:
  assumes "acc \<noteq> []" "pin \<noteq> []" "locked_accounts s acc = Some lock_time"
    "now < lock_time + 1800"
  shows "login chk s acc pin tid now =
     (Inl (Locked (((lock_time + 1800 - now) mod 86400) div 60)), s)"
  using assms by (simp add: login_def check_account_lock_def)

lemma login_after_lock:
  assumes "acc \<noteq> []" "pin \<noteq> []" "locked_accounts s acc = Some lock_time"
    "lock_time + 1800 \<le> now" "accounts s acc = Some a" "chk (pin_hash a) pin"
  shows "fst (login chk s acc pin tid now) = Inr (tid, acc, name a, account_type a, balance a) \<and>
     locked_accounts (snd (login chk s acc pin tid now)) acc = None \<and>
     failed_attempts (snd (login chk s acc pin tid now)) acc = None \<and>
     session_tokens (snd (login chk s acc pin tid now)) tid =
       Some \<lparr>account_number = acc, session_created_at = now, expires_at = now + 1800\<rparr>"
  using assms by (simp add: login_def check_account_lock_def reset_daily_limits_def)

lemma login_after_lock_wrong:
  assumes "acc \<noteq> []" "pin \<noteq> []" "locked_accounts s acc = Some lock_time"
    "lock_time + 1800 \<le> now" "accounts s acc = Some a" "\<not> chk (pin_hash a) pin"
  shows "fst (login chk s acc pin tid now) = Inl (InvalidPin 2) \<and>
     locked_accounts (snd (login chk s acc pin tid now)) acc = None \<and>
     failed_attempts (snd (login chk s acc pin tid now)) acc = Some 1"
  using assms by (simp add: login_def check_account_lock_def Let_def)


lemma locked_db_eq:
  "locked_db = day1_db\<lparr>failed_attempts := [''111111'' \<mapsto> 3],
                        locked_accounts := [''111111'' \<mapsto> 120]\<rparr>"
  by (simp add: locked_db_def login_def check_account_lock_def day1_db_def Let_def)

text \<open>
  Claim C7. For an account with no failure on record, exactly three consecutive
  failed PIN attempts lock it: the first two answer invalid PIN (2, then 1 attempts
  left) and set no lock, the third sets the lock to the instant of the attempt and
  answers locked. A login (with an account number and a PIN) before 30 minutes have
  passed since the lock answers locked whatever the PIN, and changes nothing. Once
  30 minutes have passed, the lock and the failure counter are cleared: the correct
  PIN logs in, and a wrong one counts as the first failure again.
\<close>

theorem three_failed_pins_lock_account:
  "(acc \<noteq> [] \<and> p1 \<noteq> [] \<and> p2 \<noteq> [] \<and> p3 \<noteq> [] \<and>
    accounts s acc = Some a \<and> locked_accounts s acc = None \<and> failed_attempts s acc = None \<and>
    \<not> chk (pin_hash a) p1 \<and> \<not> chk (pin_hash a) p2 \<and> \<not> chk (pin_hash a) p3
    \<longrightarrow> (let s1 = snd (login chk s acc p1 tid1 now1);
              s2 = snd (login chk s1 acc p2 tid2 now2);
              s3 = snd (login chk s2 acc p3 tid3 now3)
          in fst (login chk s acc p1 tid1 now1) = Inl (InvalidPin 2) \<and>
             locked_accounts s1 acc = None \<and>
             fst (login chk s1 acc p2 tid2 now2) = Inl (InvalidPin 1) \<and>
             locked_accounts s2 acc = None \<and>
             fst (login chk s2 acc p3 tid3 now3) = Inl (Locked 30) \<and>
             locked_accounts s3 acc = Some now3 \<and> failed_attempts s3 acc = Some 3)) \<and>
   (acc \<noteq> [] \<and> pin \<noteq> [] \<and> locked_accounts s acc = Some lock_time \<and> now < lock_time + 1800
    \<longrightarrow> login chk s acc pin tid now =
          (Inl (Locked (((lock_time + 1800 - now) mod 86400) div 60)), s)) \<and>
   (acc \<noteq> [] \<and> pin \<noteq> [] \<and> locked_accounts s acc = Some lock_time \<and> lock_time + 1800 \<le> now \<and>
    accounts s acc = Some a \<and> chk (pin_hash a) pin
    \<longrightarrow> fst (login chk s acc pin tid now) = Inr (tid, acc, name a, account_type a, balance a) \<and>
        locked_accounts (snd (login chk s acc pin tid now)) acc = None \<and>
        failed_attempts (snd (login chk s acc pin tid now)) acc = None \<and>
        session_tokens (snd (login chk s acc pin tid now)) tid =
          Some \<lparr>account_number = acc, session_created_at = now, expires_at = now + 1800\<rparr>) \<and>
   (acc \<noteq> [] \<and> pin \<noteq> [] \<and> locked_accounts s acc = Some lock_time \<and> lock_time + 1800 \<le> now \<and>
    accounts s acc = Some a \<and> \<not> chk (pin_hash a) pin
    \<longrightarrow> fst (login chk s acc pin tid now) = Inl (InvalidPin 2) \<and>
        locked_accounts (snd (login chk s acc pin tid now)) acc = None \<and>
        failed_attempts (snd (login chk s acc pin tid now)) acc = Some 1)"
proof (intro conjI)
  show "acc \<noteq> [] \<and> p1 \<noteq> [] \<and> p2 \<noteq> [] \<and> p3 \<noteq> [] \<and>
    accounts s acc = Some a \<and> locked_accounts s acc = None \<and> failed_attempts s acc = None \<and>
    \<not> chk (pin_hash a) p1 \<and> \<not> chk (pin_hash a) p2 \<and> \<not> chk (pin_hash a) p3
    \<longrightarrow> (let s1 = snd (login chk s acc p1 tid1 now1);
              s2 = snd (login chk s1 acc p2 tid2 now2);
              s3 = snd (login chk s2 acc p3 tid3 now3)
          in fst (login chk s acc p1 tid1 now1) = Inl (InvalidPin 2) \<and>
             locked_accounts s1 acc = None \<and>
             fst (login chk s1 acc p2 tid2 now2) = Inl (InvalidPin 1) \<and>
             locked_accounts s2 acc = None \<and>
             fst (login chk s2 acc p3 tid3 now3) = Inl (Locked 30) \<and>
             locked_accounts s3 acc = Some now3 \<and> failed_attempts s3 acc = Some 3)"
    using three_failures_lock [of acc p1 p2 p3 s a chk tid1 now1 tid2 now2 tid3 now3]
    by blast
next
  show "acc \<noteq> [] \<and> pin \<noteq> [] \<and> locked_accounts s acc = Some lock_time \<and> now < lock_time + 1800
    \<longrightarrow> login chk s acc pin tid now =
          (Inl (Locked (((lock_time + 1800 - now) mod 86400) div 60)), s)"
    using login_while_locked [of acc pin s lock_time now chk tid] by blast
next
  show "acc \<noteq> [] \<and> pin \<noteq> [] \<and> locked_accounts s acc = Some lock_time \<and> lock_time + 1800 \<le> now \<and>
    accounts s acc = Some a \<and> chk (pin_hash a) pin
    \<longrightarrow> fst (login chk s acc pin tid now) = Inr (tid, acc, name a, account_type a, balance a) \<and>
        locked_accounts (snd (login chk s acc pin tid now)) acc = None \<and>
        failed_attempts (snd (login chk s acc pin tid now)) acc = None \<and>
        session_tokens (snd (login chk s acc pin tid now)) tid =
          Some \<lparr>account_number = acc, session_created_at = now, expires_at = now + 1800\<rparr>"
    using login_after_lock [of acc pin s lock_time now a chk tid] by blast
next
  show "acc \<noteq> [] \<and> pin \<noteq> [] \<and> locked_accounts s acc = Some lock_time \<and> lock_time + 1800 \<le> now \<and>
    accounts s acc = Some a \<and> \<not> chk (pin_hash a) pin
    \<longrightarrow> fst (login chk s acc pin tid now) = Inl (InvalidPin 2) \<and>
        locked_accounts (snd (login chk s acc pin tid now)) acc = None \<and>
        failed_attempts (snd (login chk s acc pin tid now)) acc = Some 1"
    using login_after_lock_wrong [of acc pin s lock_time now a chk tid] by blast
qed

theorem three_failed_pins_lock_account_witness:
  "fst (login (=) day1_db ''111111'' ''0000'' ''T1'' 100) = Inl (InvalidPin 2) \<and>
   fst (login (=) (snd (login (=) day1_db ''111111'' ''0000'' ''T1'' 100))
          ''111111'' ''0000'' ''T2'' 110) = Inl (InvalidPin 1) \<and>
   fst (login (=) (snd (login (=) (snd (login (=) day1_db ''111111'' ''0000'' ''T1'' 100))
          ''111111'' ''0000'' ''T2'' 110)) ''111111'' ''0000'' ''T3'' 120) = Inl (Locked 30) \<and>
   locked_accounts locked_db ''111111'' = Some 120 \<and>
   login (=) locked_db ''111111'' ''1234'' ''T4'' 1000 = (Inl (Locked 15), locked_db) \<and>
   fst (login (=) locked_db ''111111'' ''1234'' ''T5'' 1920) =
     Inr (''T5'', ''111111'', ''Alice'', ''Savings'', 100) \<and>
   locked_accounts (snd (login (=) locked_db ''111111'' ''1234'' ''T5'' 1920)) ''111111'' = None \<and>
   failed_attempts (snd (login (=) locked_db ''111111'' ''1234'' ''T5'' 1920)) ''111111'' = None \<and>
   fst (login (=) locked_db ''111111'' ''0000'' ''T6'' 1920) = Inl (InvalidPin 2)"
proof -
  let ?a1 = "\<lparr>pin_hash = ''1234'', balance = 100, name = ''Alice'', account_type = ''Savings'',
        daily_limit = 5000, daily_withdrawn = 0, last_reset = 0, created_at = 0,
        preferences = [''fast_cash_amount'' \<mapsto> JNum 100, ''receipt_enabled'' \<mapsto> JBool True,
                       ''language'' \<mapsto> JStr ''en'']\<rparr>"
  note T1 = three_failed_pins_lock_account
    [where chk = "(=)" and s = day1_db and acc = "''111111''" and a = ?a1
       and ?p1.0 = "''0000''" and ?p2.0 = "''0000''" and ?p3.0 = "''0000''"
       and ?tid1.0 = "''T1''" and ?tid2.0 = "''T2''" and ?tid3.0 = "''T3''"
       and ?now1.0 = 100 and ?now2.0 = 110 and ?now3.0 = 120, THEN conjunct1, THEN mp]
  note T2 = three_failed_pins_lock_account
    [where chk = "(=)" and s = locked_db and acc = "''111111''" and pin = "''1234''"
       and lock_time = 120 and now = 1000 and tid = "''T4''",
     THEN conjunct2, THEN conjunct1, THEN mp]
  note T3 = three_failed_pins_lock_account
    [where chk = "(=)" and s = locked_db and acc = "''111111''" and pin = "''1234''" and a = ?a1
       and lock_time = 120 and now = 1920 and tid = "''T5''",
     THEN conjunct2, THEN conjunct2, THEN conjunct1, THEN mp]
  note T4 = three_failed_pins_lock_account
    [where chk = "(=)" and s = locked_db and acc = "''111111''" and pin = "''0000''" and a = ?a1
       and lock_time = 120 and now = 1920 and tid = "''T6''",
     THEN conjunct2, THEN conjunct2, THEN conjunct2, THEN mp]
  have h1: "''111111'' \<noteq> [] \<and> ''0000'' \<noteq> [] \<and> ''0000'' \<noteq> [] \<and> ''0000'' \<noteq> [] \<and>
      accounts day1_db ''111111'' = Some ?a1 \<and> locked_accounts day1_db ''111111'' = None \<and>
      failed_attempts day1_db ''111111'' = None \<and>
      \<not> (pin_hash ?a1 = ''0000'') \<and> \<not> (pin_hash ?a1 = ''0000'') \<and> \<not> (pin_hash ?a1 = ''0000'')"
    by (simp add: day1_db_def)
  note c1 = T1 [OF h1, unfolded Let_def, folded locked_db_def]
  have acc: "accounts locked_db ''111111'' = Some ?a1"
    by (simp add: locked_db_eq) (simp add: day1_db_def)
  from c1 have lk: "locked_accounts locked_db ''111111'' = Some 120" by blast
  have h2: "''111111'' \<noteq> [] \<and> ''1234'' \<noteq> [] \<and> locked_accounts locked_db ''111111'' = Some 120 \<and>
      (1000::int) < 120 + 1800"
    using lk by simp
  from T2 [OF h2] have c2: "login (=) locked_db ''111111'' ''1234'' ''T4'' 1000 =
      (Inl (Locked 15), locked_db)"
    by simp
  have h3: "''111111'' \<noteq> [] \<and> ''1234'' \<noteq> [] \<and> locked_accounts locked_db ''111111'' = Some 120 \<and>
      (120::int) + 1800 \<le> 1920 \<and> accounts locked_db ''111111'' = Some ?a1 \<and> pin_hash ?a1 = ''1234''"
    using lk acc by simp
  have h4: "''111111'' \<noteq> [] \<and> ''0000'' \<noteq> [] \<and> locked_accounts locked_db ''111111'' = Some 120 \<and>
      (120::int) + 1800 \<le> 1920 \<and> accounts locked_db ''111111'' = Some ?a1 \<and>
      \<not> (pin_hash ?a1 = ''0000'')"
    using lk acc by simp
  from T3 [OF h3] have c3: "fst (login (=) locked_db ''111111'' ''1234'' ''T5'' 1920) =
     Inr (''T5'', ''111111'', ''Alice'', ''Savings'', 100)"
    "locked_accounts (snd (login (=) locked_db ''111111'' ''1234'' ''T5'' 1920)) ''111111'' = None"
    "failed_attempts (snd (login (=) locked_db ''111111'' ''1234'' ''T5'' 1920)) ''111111'' = None"
    by simp_all
  from T4 [OF h4] have c4: "fst (login (=) locked_db ''111111'' ''0000'' ''T6'' 1920) = Inl (InvalidPin 2)"
    by simp
  from c1 lk c2 c3 c4 show ?thesis by blast
qed

section \<open>Session expiry\<close>

text \<open>
  Claim C1 says that every authenticated operation on a token whose expiry has passed
  (now \<open>\<ge>\<close> expires_at) fails with session-expired and changes nothing. In the code
  only \<open>get_balance\<close> reads \<open>expires_at\<close>: with Alice's token, issued 31 minutes before
  and never renewed, \<open>get_balance\<close> answers session-expired, and \<open>withdraw\<close> pays out
  30 and lowers the balance from 100 to 70. At the instant of expiry itself
  \<open>get_balance\<close> still succeeds, its test being \<open>now > expires_at\<close>.
\<close>

theorem expired_token_still_withdraws:
  "day1 = Ledger day1_db \<and>
   session_tokens day1_db ''TOKENA'' =
     Some \<lparr>account_number = ''111111'', session_created_at = 60, expires_at = 1860\<rparr> \<and>
   (1920::int) = 60 + 31 * 60 \<and>
   get_balance day1_db ''TOKENA'' 1920 = (Inl SessionExpired, day1_db) \<and>
   fst (withdraw day1_db ''TOKENA'' 30 ''cash'' ''TX08'' 1920) = Inr (70, ''TX08'', 1920) \<and>
   map_option balance
     (accounts (snd (withdraw day1_db ''TOKENA'' 30 ''cash'' ''TX08'' 1920)) ''111111'') = Some 70 \<and>
   fst (get_balance day1_db ''TOKENA'' 1860) = Inr (100, 5000, 5000, ''Savings'')"
  by (simp add: day1_eq) (simp add: day1_db_def get_balance_def withdraw_def renew_def)

section \<open>Logout\<close>

text \<open>
  Claim C2 says that logout removes the token's session and leaves the rest of the
  file as it was, idempotently. In the code a logout with a token that has a session
  writes the request body over the file: no account, transaction, counter or session
  is left, and the next logout raises KeyError. A logout with an unknown token
  succeeds and writes nothing.
\<close>

theorem logout_overwrites_file:
  "day1 = Ledger day1_db \<and>
   logout day1 ''TOKENA'' = (Inr (), Request_body ''TOKENA'') \<and>
   snd (logout day1 ''TOKENA'') \<noteq>
     Ledger (day1_db\<lparr>session_tokens := (session_tokens day1_db)(''TOKENA'' := None)\<rparr>) \<and>
   accounts_of day1 ''111111'' \<noteq> None \<and>
   accounts_of (snd (logout day1 ''TOKENA'')) ''111111'' = None \<and>
   logout (snd (logout day1 ''TOKENA'')) ''TOKENA'' = (Inl KeyError, Request_body ''TOKENA'') \<and>
   logout day1 ''NOSUCH'' = (Inr (), day1)"
  by (simp add: day1_eq) (simp add: day1_db_def)

section \<open>Renewal of the session\<close>

text \<open>
  Claim C9 says that every successful authenticated operation renews the session to
  now + 30 minutes. In the code \<open>change_pin\<close>, \<open>update_preferences\<close> and
  \<open>get_account_info\<close> succeed and leave \<open>expires_at\<close> as it was (1860 here), where
  \<open>get_balance\<close> at instant 900 moves it to 2700.
\<close>

theorem change_pin_does_not_renew:
  "day1 = Ledger day1_db \<and>
   map_option expires_at (session_tokens day1_db ''TOKENA'') = Some 1860 \<and>
   fst (change_pin (=) day1_db ''TOKENA'' ''1234'' ''5678'' ''5678'') = Inr () \<and>
   map_option expires_at
     (session_tokens (snd (change_pin (=) day1_db ''TOKENA'' ''1234'' ''5678'' ''5678'')) ''TOKENA'')
     = Some 1860 \<and>
   fst (update_preferences day1_db ''TOKENA'' [''language'' \<mapsto> JStr ''fr'']) =
     Inr [''fast_cash_amount'' \<mapsto> JNum 100, ''receipt_enabled'' \<mapsto> JBool True,
          ''language'' \<mapsto> JStr ''fr''] \<and>
   map_option expires_at
     (session_tokens (snd (update_preferences day1_db ''TOKENA'' [''language'' \<mapsto> JStr ''fr'']))
        ''TOKENA'') = Some 1860 \<and>
   get_account_info day1_db ''TOKENA'' =
     (Inr (''111111'', ''Alice'', ''Savings'', 100, 5000, 0), day1_db) \<and>
   map_option expires_at (session_tokens (snd (get_balance day1_db ''TOKENA'' 900)) ''TOKENA'')
     = Some 2700"
  by (simp add: day1_eq)
     (simp add: day1_db_def change_pin_def bad_pin_def isdigit_def
      update_preferences_def get_account_info_def get_balance_def renew_def Let_def
      fun_eq_iff map_add_def)

section \<open>The daily reset\<close>











end
